theory Spec2Isabelle
  imports Main "HOL-Library.AList" "HOL-Library.Word"
begin

section \<open>Python values, exceptions and dictionaries\<close>

text \<open>
  The values that can sit in the argparse namespace handed to \<open>parse_settings\<close>, or come
  out of \<open>ast.literal_eval\<close>. A float is kept as its IEEE-754 binary64 bit pattern: the
  function never computes with one, it only tests its truth value and passes it on.
  A dictionary is an association list with distinct keys in insertion order, as a Python
  \<open>dict\<close> is.
\<close>

datatype pyval =
    PNone
  | PBool bool
  | PInt int
  | PFloat "64 word"
  | PStr string
  | PList "pyval list"
  | PTuple "pyval list"
  | PDict "(pyval \<times> pyval) list"

text \<open>
  The exceptions of the function: \<open>MS2RescoreGUIError\<close> is the class declared in gui.py,
  the others are the built-in ones that \<open>dict.pop\<close>, \<open>str.split\<close> on a non-string,
  \<open>dict(...)\<close> and \<open>ast.literal_eval\<close> raise. All of them derive from \<open>Exception\<close>.
\<close>

datatype exn =
    KeyError string
  | ValueError
  | AttributeError
  | TypeError
  | SyntaxError
  | MemoryError
  | RecursionError
  | MS2RescoreGUIError string

type_synonym 'v pydict = "(string \<times> 'v) list"

text \<open>\<open>d[k] = v\<close>: an existing key keeps its position, a new key goes last.\<close>

definition dict_setitem :: "string \<Rightarrow> 'v \<Rightarrow> 'v pydict \<Rightarrow> 'v pydict" where
  "dict_setitem k v d = AList.update k v d"

text \<open>\<open>d.pop(k)\<close> with no default: the value and the dictionary without the key, or KeyError.\<close>

definition dict_pop :: "string \<Rightarrow> 'v pydict \<Rightarrow> exn + ('v \<times> 'v pydict)" where
  "dict_pop k d =
     (case map_of d k of
        None \<Rightarrow> Inl (KeyError k)
      | Some v \<Rightarrow> Inr (v, AList.delete k d))"

text \<open>
  \<open>dict(seq)\<close> on a sequence of tuples of strings: the elements are taken in order, each
  must have exactly two components (else ValueError), and a later key overwrites an
  earlier one.
\<close>

fun dict_of_seq :: "string list list \<Rightarrow> string pydict \<Rightarrow> exn + string pydict" where
  "dict_of_seq [] d = Inr d"
| "dict_of_seq (t # ts) d =
     (case t of
        [k, v] \<Rightarrow> dict_of_seq ts (dict_setitem k v d)
      | _ \<Rightarrow> Inl ValueError)"

text \<open>
  \<open>s.split(sep)\<close> for a separator of one character: every occurrence of the separator
  cuts, so the result has one more piece than there are separators, and the empty string
  gives one empty piece.
\<close>

fun str_split :: "'a \<Rightarrow> 'a list \<Rightarrow> 'a list list" where
  "str_split sep [] = [[]]"
| "str_split sep (c # cs) =
     (if c = sep then [] # str_split sep cs
      else (case str_split sep cs of
              [] \<Rightarrow> [[c]]
            | w # ws \<Rightarrow> (c # w) # ws))"

text \<open>The truth value of a Python object, as \<open>if x:\<close> tests it.\<close>

fun truthy :: "pyval \<Rightarrow> bool" where
  "truthy PNone = False"
| "truthy (PBool b) = b"
| "truthy (PInt i) = (i \<noteq> 0)"
| "truthy (PFloat w) = (w \<noteq> 0 \<and> w \<noteq> 0x8000000000000000)"
| "truthy (PStr s) = (s \<noteq> [])"
| "truthy (PList xs) = (xs \<noteq> [])"
| "truthy (PTuple xs) = (xs \<noteq> [])"
| "truthy (PDict kvs) = (kvs \<noteq> [])"

section \<open>parse_settings\<close>

text \<open>
  The caller's \<open>config\<close> dictionary is a mutable object: \<open>parsed_config["general"]\<close> is
  bound to that very object, and every \<open>pop\<close> changes it. The heap maps the address of a
  dictionary object to its contents.
\<close>

type_synonym addr = nat
type_synonym heap = "addr \<Rightarrow> pyval pydict"

record parsed_config =
  general :: addr
  maxquant_to_rescore :: "(string pydict) pydict"
  ms2pip :: "pyval pydict"

definition newline :: char where
  "newline = CHR 0x0A"

definition space :: char where
  "space = CHR 0x20"

definition maxquant_msg :: string where
  "maxquant_msg =
     ''Invalid MaxQuant modification configuration. Make sure that the '' @
     ''modification configuration fields are formatted correctly.''"

definition ms2pip_msg :: string where
  "ms2pip_msg =
     ''Invalid MS'' @ [CHR 0xB2] @ ''PIP modification configuration. Make sure that the '' @
     ''modification configuration field is formatted correctly.''"

text \<open>
  The body of the \<open>try\<close> block of the MaxQuant loop (lines 233 to 237), with the exception
  it raises, before the handler turns it into MS2RescoreGUIError.
\<close>

definition parse_conf_item :: "pyval \<Rightarrow> exn + string pydict" where
  "parse_conf_item v =
     (if truthy v then
        (case v of
           PStr s \<Rightarrow> dict_of_seq (map (str_split space) (str_split newline s)) []
         | _ \<Rightarrow> Inl AttributeError)
      else Inr [])"

text \<open>
  The loop \<open>for conf_item in ["modification_mapping", "fixed_modifications"]\<close>. The pop is
  outside the \<open>try\<close>, so its KeyError escapes as it is; anything raised inside is replaced
  by MS2RescoreGUIError. The heap is returned in either case.
\<close>

fun maxquant_loop ::
  "addr \<Rightarrow> string list \<Rightarrow> (string pydict) pydict \<Rightarrow> heap \<Rightarrow>
   (exn + (string pydict) pydict) \<times> heap" where
  "maxquant_loop a [] mq h = (Inr mq, h)"
| "maxquant_loop a (conf_item # rest) mq h =
     (case dict_pop conf_item (h a) of
        Inl e \<Rightarrow> (Inl e, h)
      | Inr (v, d) \<Rightarrow>
          (case parse_conf_item v of
             Inl e \<Rightarrow> (Inl (MS2RescoreGUIError maxquant_msg), h(a := d))
           | Inr item \<Rightarrow> maxquant_loop a rest (dict_setitem conf_item item mq) (h(a := d))))"

text \<open>
  \<open>ast.literal_eval\<close> belongs to the Python standard library, so its behaviour on a string
  is a parameter \<open>le\<close>: the value of the literal, or the exception raised. On an argument
  that is neither a string nor a syntax node it raises ValueError.
\<close>

definition literal_eval :: "(string \<Rightarrow> exn + pyval) \<Rightarrow> pyval \<Rightarrow> exn + pyval" where
  "literal_eval le v = (case v of PStr s \<Rightarrow> le s | _ \<Rightarrow> Inl ValueError)"

definition parse_settings ::
  "(string \<Rightarrow> exn + pyval) \<Rightarrow> addr \<Rightarrow> heap \<Rightarrow> (exn + parsed_config) \<times> heap" where
  "parse_settings le config h =
     (case maxquant_loop config [''modification_mapping'', ''fixed_modifications''] [] h of
        (Inl e, h1) \<Rightarrow> (Inl e, h1)
      | (Inr mq, h1) \<Rightarrow>
          (case dict_pop ''ms2pip_model'' (h1 config) of
             Inl e \<Rightarrow> (Inl e, h1)
           | Inr (model, d2) \<Rightarrow>
               (case dict_pop ''ms2pip_frag_error'' d2 of
                  Inl e \<Rightarrow> (Inl e, h1(config := d2))
                | Inr (frag_error, d3) \<Rightarrow>
                    (case dict_pop ''ms2pip_modifications'' d3 of
                       Inl e \<Rightarrow> (Inl (MS2RescoreGUIError ms2pip_msg), h1(config := d3))
                     | Inr (text, d4) \<Rightarrow>
                         (case literal_eval le text of
                            Inl e \<Rightarrow> (Inl (MS2RescoreGUIError ms2pip_msg), h1(config := d4))
                          | Inr mods \<Rightarrow>
                              (Inr \<lparr> general = config,
                                     maxquant_to_rescore = mq,
                                     ms2pip = dict_setitem ''modifications'' mods
                                                [(''model'', model), (''frag_error'', frag_error)] \<rparr>,
                               h1(config := d4)))))))"

section \<open>Notions used to state the properties\<close>

text \<open>The dictionary without the keys \<open>ks\<close>, the other entries in their order.\<close>

definition without :: "string list \<Rightarrow> 'v pydict \<Rightarrow> 'v pydict" where
  "without ks d = filter (\<lambda>p. fst p \<notin> set ks) d"

text \<open>The five keys that \<open>parse_settings\<close> pops from \<open>general\<close>, in the order of the pops.\<close>

definition relocated :: "string list" where
  "relocated =
     [''modification_mapping'', ''fixed_modifications'',
      ''ms2pip_model'', ''ms2pip_frag_error'', ''ms2pip_modifications'']"

text \<open>Every line of the text splits into exactly two space-separated tokens.\<close>

definition well_formed_text :: "string \<Rightarrow> bool" where
  "well_formed_text t =
     list_all (\<lambda>l. length (str_split space l) = 2) (str_split newline t)"

text \<open>
  The (short label, full name) pairs of a well-formed text, one per line, in the order of
  the lines: the first and the second token of each line.
\<close>

definition text_pairs :: "string \<Rightarrow> (string \<times> string) list" where
  "text_pairs t =
     map (\<lambda>l. (str_split space l ! 0, str_split space l ! 1)) (str_split newline t)"

text \<open>A line cut at its first space: the part before it and the part after it.\<close>

definition split_first_space :: "string \<Rightarrow> string \<times> string" where
  "split_first_space l =
     (takeWhile (\<lambda>c. c \<noteq> space) l, tl (dropWhile (\<lambda>c. c \<noteq> space) l))"

text \<open>\<open>dict(pairs)\<close> on a list of pairs: filled in order, a later pair overwrites.\<close>

definition dict_of_pairs :: "(string \<times> string) list \<Rightarrow> string pydict" where
  "dict_of_pairs ps = fold (\<lambda>p. dict_setitem (fst p) (snd p)) ps []"

text \<open>
  The entry \<open>k\<close> of the caller's dictionary is there and the \<open>try\<close> block of the MaxQuant
  loop goes through on it.
\<close>

definition item_parses :: "heap \<Rightarrow> addr \<Rightarrow> string \<Rightarrow> bool" where
  "item_parses h a k =
     (case map_of (h a) k of
        None \<Rightarrow> False
      | Some v \<Rightarrow> (case parse_conf_item v of Inl e \<Rightarrow> False | Inr i \<Rightarrow> True))"

definition present :: "heap \<Rightarrow> addr \<Rightarrow> string \<Rightarrow> bool" where
  "present h a k = (map_of (h a) k \<noteq> None)"

text \<open>
  Control reaches the pop of key \<open>k\<close>: every statement of \<open>parse_settings\<close> before that
  pop has run without raising.
\<close>

definition reaches_pop :: "string \<Rightarrow> heap \<Rightarrow> addr \<Rightarrow> bool" where
  "reaches_pop k h a =
     (if k = ''modification_mapping'' then True
      else if k = ''fixed_modifications'' then item_parses h a ''modification_mapping''
      else if k = ''ms2pip_model'' then
        item_parses h a ''modification_mapping'' \<and> item_parses h a ''fixed_modifications''
      else if k = ''ms2pip_frag_error'' then
        item_parses h a ''modification_mapping'' \<and> item_parses h a ''fixed_modifications'' \<and>
        present h a ''ms2pip_model''
      else if k = ''ms2pip_modifications'' then
        item_parses h a ''modification_mapping'' \<and> item_parses h a ''fixed_modifications'' \<and>
        present h a ''ms2pip_model'' \<and> present h a ''ms2pip_frag_error''
      else False)"

text \<open>Python's \<open>needle in haystack\<close> on strings.\<close>

fun str_contains :: "string \<Rightarrow> string \<Rightarrow> bool" where
  "str_contains needle [] = (needle = [])"
| "str_contains needle (c # cs) =
     (take (length needle) (c # cs) = needle \<or> str_contains needle cs)"

subsection \<open>Concrete inputs\<close>

text \<open>
  The namespace of the form with the given texts in the three free-text fields, the
  defaults \<open>HCD2021\<close> and 0.02 (bit pattern 3F947AE147AE147B) in the other two MS2PIP
  fields, and two of the general fields.
\<close>

definition form_values :: "string \<Rightarrow> string \<Rightarrow> string \<Rightarrow> pyval pydict" where
  "form_values mapping_text fixed_text mods_text =
     [(''identification_file'', PStr ''msms.txt''),
      (''pipeline'', PStr ''infer''),
      (''fixed_modifications'', PStr fixed_text),
      (''modification_mapping'', PStr mapping_text),
      (''ms2pip_model'', PStr ''HCD2021''),
      (''ms2pip_frag_error'', PFloat 0x3F947AE147AE147B),
      (''ms2pip_modifications'', PStr mods_text)]"

text \<open>The heap whose only dictionary object, at address 0, has the contents \<open>d\<close>.\<close>

definition one_object :: "pyval pydict \<Rightarrow> heap" where
  "one_object d = (\<lambda>b. if b = 0 then d else [])"

text \<open>
  An excerpt of \<open>ast.literal_eval\<close> for the concrete inputs below: the empty list, the
  number 5 and the string \<open>x\<close> are literals, and an opening bracket alone is a syntax
  error. The excerpt is read at these four texts only.
\<close>

definition literal_eval_excerpt :: "string \<Rightarrow> exn + pyval" where
  "literal_eval_excerpt s =
     (if s = ''[]'' then Inr (PList [])
      else if s = ''5'' then Inr (PInt 5)
      else if s = [CHR 0x27, CHR ''x'', CHR 0x27] then Inr (PStr ''x'')
      else Inl SyntaxError)"

section \<open>Strings and dictionaries\<close>

lemma str_split_not_Nil: "str_split sep s \<noteq> []"
  by (induction s) (auto split: list.split)

lemma length_str_split: "length (str_split sep s) = Suc (count_list s sep)"
  by (induction s) (auto split: list.split simp: str_split_not_Nil)

lemma str_split_no_sep: "sep \<notin> set s \<Longrightarrow> str_split sep s = [s]"
  by (induction s) auto

lemma str_split_first:
  "str_split sep s =
     (if sep \<in> set s
      then takeWhile (\<lambda>c. c \<noteq> sep) s # str_split sep (tl (dropWhile (\<lambda>c. c \<noteq> sep) s))
      else [s])"
  by (induction s) (auto simp: str_split_no_sep split: list.split)

lemma count_list_zero_iff: "count_list s x = 0 \<longleftrightarrow> x \<notin> set s"
  by (induction s) auto

lemma count_list_tl_dropWhile:
  "x \<in> set s \<Longrightarrow> count_list (tl (dropWhile (\<lambda>c. c \<noteq> x) s)) x = count_list s x - 1"
  by (induction s) auto

lemma str_split_two:
  assumes "count_list s sep = 1"
  shows "str_split sep s = [takeWhile (\<lambda>c. c \<noteq> sep) s, tl (dropWhile (\<lambda>c. c \<noteq> sep) s)]"
proof -
  from assms have mem: "sep \<in> set s"
    by (metis count_list_zero_iff zero_neq_one)
  with assms have "count_list (tl (dropWhile (\<lambda>c. c \<noteq> sep) s)) sep = 0"
    by (simp add: count_list_tl_dropWhile)
  then have "sep \<notin> set (tl (dropWhile (\<lambda>c. c \<noteq> sep) s))"
    by (simp add: count_list_zero_iff)
  then have "str_split sep (tl (dropWhile (\<lambda>c. c \<noteq> sep) s)) = [tl (dropWhile (\<lambda>c. c \<noteq> sep) s)]"
    by (rule str_split_no_sep)
  with mem show ?thesis
    by (subst str_split_first) simp
qed

lemma length_two_cases: "length t = 2 \<Longrightarrow> \<exists>k v. t = [k, v]"
  by (cases t; simp) (metis Suc_length_conv length_0_conv)

lemma dict_of_seq_ok:
  "list_all (\<lambda>t. length t = 2) ts \<Longrightarrow>
   dict_of_seq ts d = Inr (fold (\<lambda>t. dict_setitem (t ! 0) (t ! 1)) ts d)"
proof (induction ts arbitrary: d)
  case Nil
  then show ?case by simp
next
  case (Cons t ts)
  from Cons.prems have "length t = 2" by simp
  then obtain k v where t: "t = [k, v]"
    using length_two_cases by blast
  with Cons show ?case by simp
qed

lemma dict_of_seq_bad:
  "\<not> list_all (\<lambda>t. length t = 2) ts \<Longrightarrow> dict_of_seq ts d = Inl ValueError"
proof (induction ts arbitrary: d)
  case Nil
  then show ?case by simp
next
  case (Cons t ts)
  show ?case
  proof (cases "length t = 2")
    case True
    then obtain k v where t: "t = [k, v]"
      using length_two_cases by blast
    with Cons show ?thesis by simp
  next
    case False
    then show ?thesis
      by (auto split: list.split)
  qed
qed

lemma delete_is_without: "AList.delete k d = without [k] d"
  by (induction d) (auto simp add: without_def)

lemma without_without: "without [k] (without ks d) = without (ks @ [k]) d"
  by (induction d) (auto simp add: without_def)

lemma map_of_without: "map_of (without ks d) k = (if k \<in> set ks then None else map_of d k)"
  by (induction d) (auto simp add: without_def)

lemma map_of_fold_setitem:
  "map_of (fold (\<lambda>x. dict_setitem (f x) (g x)) xs d) k =
     (case map_of (rev (map (\<lambda>x. (f x, g x)) xs)) k of
        None \<Rightarrow> map_of d k
      | Some v \<Rightarrow> Some v)"
  by (induction xs arbitrary: d)
     (auto simp add: dict_setitem_def update_conv' map_of_append map_add_def
           split: option.split)

lemma keys_fold_setitem:
  "set (map fst (fold (\<lambda>x. dict_setitem (f x) (g x)) xs d)) = f ` set xs \<union> set (map fst d)"
  by (induction xs arbitrary: d) (simp_all add: dict_setitem_def AList.dom_update Un_ac)

lemma distinct_fold_setitem:
  "distinct (map fst d) \<Longrightarrow> distinct (map fst (fold (\<lambda>x. dict_setitem (f x) (g x)) xs d))"
  by (induction xs arbitrary: d) (auto simp add: dict_setitem_def distinct_update)

lemma parse_conf_item_empty: "parse_conf_item (PStr []) = Inr []"
  by (simp add: parse_conf_item_def)

lemma parse_conf_item_text:
  assumes "t \<noteq> []"
  shows "parse_conf_item (PStr t) =
          (if well_formed_text t
           then Inr (fold (\<lambda>l. dict_setitem (str_split space l ! 0) (str_split space l ! 1))
                       (str_split newline t) [])
           else Inl ValueError)"
proof (cases "well_formed_text t")
  case True
  then have "list_all (\<lambda>ts. length ts = 2) (map (str_split space) (str_split newline t))"
    by (simp add: well_formed_text_def list_all_iff)
  from dict_of_seq_ok [OF this] assms True show ?thesis
    by (simp add: parse_conf_item_def fold_map comp_def)
next
  case False
  then have "\<not> list_all (\<lambda>ts. length ts = 2) (map (str_split space) (str_split newline t))"
    by (simp add: well_formed_text_def list_all_iff)
  from dict_of_seq_bad [OF this] assms False show ?thesis
    by (simp add: parse_conf_item_def)
qed

section \<open>The steps of parse_settings\<close>

text \<open>
  The function as a cascade over the caller's dictionary as it was at the call: each pop
  looks up a key that the earlier pops did not remove.
\<close>

lemma maxquant_loop_steps:
  "maxquant_loop a [''modification_mapping'', ''fixed_modifications''] [] h =
     (case map_of (h a) ''modification_mapping'' of
        None \<Rightarrow> (Inl (KeyError ''modification_mapping''), h)
      | Some v1 \<Rightarrow>
          (case parse_conf_item v1 of
             Inl e \<Rightarrow> (Inl (MS2RescoreGUIError maxquant_msg),
                        h(a := without [''modification_mapping''] (h a)))
           | Inr i1 \<Rightarrow>
               (case map_of (h a) ''fixed_modifications'' of
                  None \<Rightarrow> (Inl (KeyError ''fixed_modifications''),
                            h(a := without [''modification_mapping''] (h a)))
                | Some v2 \<Rightarrow>
                    (case parse_conf_item v2 of
                       Inl e \<Rightarrow> (Inl (MS2RescoreGUIError maxquant_msg),
                                  h(a := without [''modification_mapping'',
                                                  ''fixed_modifications''] (h a)))
                     | Inr i2 \<Rightarrow>
                         (Inr [(''modification_mapping'', i1), (''fixed_modifications'', i2)],
                          h(a := without [''modification_mapping'',
                                          ''fixed_modifications''] (h a)))))))"
  by (simp add: dict_pop_def dict_setitem_def delete_is_without without_without map_of_without
           split: option.split sum.split)

lemma parse_settings_steps:
  "parse_settings le a h =
     (case map_of (h a) ''modification_mapping'' of
        None \<Rightarrow> (Inl (KeyError ''modification_mapping''), h)
      | Some v1 \<Rightarrow>
     (case parse_conf_item v1 of
        Inl e \<Rightarrow> (Inl (MS2RescoreGUIError maxquant_msg),
                   h(a := without [''modification_mapping''] (h a)))
      | Inr i1 \<Rightarrow>
     (case map_of (h a) ''fixed_modifications'' of
        None \<Rightarrow> (Inl (KeyError ''fixed_modifications''),
                  h(a := without [''modification_mapping''] (h a)))
      | Some v2 \<Rightarrow>
     (case parse_conf_item v2 of
        Inl e \<Rightarrow> (Inl (MS2RescoreGUIError maxquant_msg),
                   h(a := without [''modification_mapping'', ''fixed_modifications''] (h a)))
      | Inr i2 \<Rightarrow>
     (case map_of (h a) ''ms2pip_model'' of
        None \<Rightarrow> (Inl (KeyError ''ms2pip_model''),
                  h(a := without [''modification_mapping'', ''fixed_modifications''] (h a)))
      | Some m \<Rightarrow>
     (case map_of (h a) ''ms2pip_frag_error'' of
        None \<Rightarrow> (Inl (KeyError ''ms2pip_frag_error''),
                  h(a := without [''modification_mapping'', ''fixed_modifications'',
                                  ''ms2pip_model''] (h a)))
      | Some f \<Rightarrow>
     (case map_of (h a) ''ms2pip_modifications'' of
        None \<Rightarrow> (Inl (MS2RescoreGUIError ms2pip_msg),
                  h(a := without [''modification_mapping'', ''fixed_modifications'',
                                  ''ms2pip_model'', ''ms2pip_frag_error''] (h a)))
      | Some t \<Rightarrow>
     (case literal_eval le t of
        Inl e \<Rightarrow> (Inl (MS2RescoreGUIError ms2pip_msg), h(a := without relocated (h a)))
      | Inr mods \<Rightarrow>
          (Inr \<lparr> general = a,
                 maxquant_to_rescore =
                   [(''modification_mapping'', i1), (''fixed_modifications'', i2)],
                 ms2pip = [(''model'', m), (''frag_error'', f), (''modifications'', mods)] \<rparr>,
           h(a := without relocated (h a)))))))))))"
proof -
  note defs = parse_settings_def maxquant_loop_steps dict_pop_def delete_is_without
    without_without map_of_without dict_setitem_def relocated_def
  show ?thesis
  proof (cases "map_of (h a) ''modification_mapping''")
    case None
    then show ?thesis by (simp add: defs)
  next
    case v1: (Some v1)
    show ?thesis
    proof (cases "parse_conf_item v1")
      case Inl
      with v1 show ?thesis by (simp add: defs)
    next
      case i1: (Inr i1)
      show ?thesis
      proof (cases "map_of (h a) ''fixed_modifications''")
        case None
        with v1 i1 show ?thesis by (simp add: defs)
      next
        case v2: (Some v2)
        show ?thesis
        proof (cases "parse_conf_item v2")
          case Inl
          with v1 i1 v2 show ?thesis by (simp add: defs)
        next
          case i2: (Inr i2)
          show ?thesis
          proof (cases "map_of (h a) ''ms2pip_model''")
            case None
            with v1 i1 v2 i2 show ?thesis by (simp add: defs)
          next
            case m: (Some m)
            show ?thesis
            proof (cases "map_of (h a) ''ms2pip_frag_error''")
              case None
              with v1 i1 v2 i2 m show ?thesis by (simp add: defs)
            next
              case f: (Some f)
              show ?thesis
              proof (cases "map_of (h a) ''ms2pip_modifications''")
                case None
                with v1 i1 v2 i2 m f show ?thesis by (simp add: defs)
              next
                case t: (Some t)
                show ?thesis
                proof (cases "literal_eval le t")
                  case Inl
                  with v1 i1 v2 i2 m f t show ?thesis by (simp add: defs)
                next
                  case Inr
                  with v1 i1 v2 i2 m f t show ?thesis by (simp add: defs)
                qed
              qed
            qed
          qed
        qed
      qed
    qed
  qed
qed

lemma parse_settings_InrD:
  assumes "parse_settings le a h = (Inr r, h')"
  shows "\<exists>v1 i1 v2 i2 m f t mods.
           map_of (h a) ''modification_mapping'' = Some v1 \<and> parse_conf_item v1 = Inr i1 \<and>
           map_of (h a) ''fixed_modifications'' = Some v2 \<and> parse_conf_item v2 = Inr i2 \<and>
           map_of (h a) ''ms2pip_model'' = Some m \<and>
           map_of (h a) ''ms2pip_frag_error'' = Some f \<and>
           map_of (h a) ''ms2pip_modifications'' = Some t \<and> literal_eval le t = Inr mods \<and>
           r = \<lparr> general = a,
                 maxquant_to_rescore =
                   [(''modification_mapping'', i1), (''fixed_modifications'', i2)],
                 ms2pip = [(''model'', m), (''frag_error'', f), (''modifications'', mods)] \<rparr> \<and>
           h' = h(a := without relocated (h a))"
  using assms unfolding parse_settings_steps
  by (simp split: option.splits sum.splits)

lemma parse_settings_InrI:
  assumes "map_of (h a) ''modification_mapping'' = Some v1" "parse_conf_item v1 = Inr i1"
    "map_of (h a) ''fixed_modifications'' = Some v2" "parse_conf_item v2 = Inr i2"
    "map_of (h a) ''ms2pip_model'' = Some m"
    "map_of (h a) ''ms2pip_frag_error'' = Some f"
    "map_of (h a) ''ms2pip_modifications'' = Some t" "literal_eval le t = Inr mods"
  shows "parse_settings le a h =
          (Inr \<lparr> general = a,
                 maxquant_to_rescore =
                   [(''modification_mapping'', i1), (''fixed_modifications'', i2)],
                 ms2pip = [(''model'', m), (''frag_error'', f), (''modifications'', mods)] \<rparr>,
           h(a := without relocated (h a)))"
  using assms by (simp add: parse_settings_steps)

lemma parse_settings_heap:
  "\<exists>n\<le>5. snd (parse_settings le a h) = h(a := without (take n relocated) (h a))"
proof -
  have w0: "h = h(a := without (take 0 relocated) (h a))"
    by (simp add: without_def)
  have "snd (parse_settings le a h) \<in> (\<lambda>n. h(a := without (take n relocated) (h a))) ` {0, 1, 2, 3, 4, 5}"
    unfolding parse_settings_steps
    apply (simp split: option.split sum.split add: relocated_def)
    using w0 by (auto simp: relocated_def)
  then obtain n where n: "n \<in> {0, 1, 2, 3, 4, 5::nat}"
    and eq: "snd (parse_settings le a h) = h(a := without (take n relocated) (h a))"
    by blast
  from n have "n \<le> 5" by auto
  with eq show ?thesis by blast
qed

lemma msgs_differ: "maxquant_msg \<noteq> ms2pip_msg"
  by (simp add: maxquant_msg_def ms2pip_msg_def)

lemma map_of_dict_of_pairs: "map_of (dict_of_pairs ps) k = map_of (rev ps) k"
  using map_of_fold_setitem [of fst snd ps "[]" k]
  by (simp add: dict_of_pairs_def split: option.split)

lemma keys_dict_of_pairs: "set (map fst (dict_of_pairs ps)) = set (map fst ps)"
  using keys_fold_setitem [of fst snd ps "[]"] by (simp add: dict_of_pairs_def)

lemma distinct_dict_of_pairs: "distinct (map fst (dict_of_pairs ps))"
  using distinct_fold_setitem [of "[]" fst snd ps] by (simp add: dict_of_pairs_def)

lemma parse_conf_item_well_formed:
  assumes "t \<noteq> []" "well_formed_text t"
  shows "parse_conf_item (PStr t) = Inr (dict_of_pairs (text_pairs t))"
  using assms
  by (simp add: parse_conf_item_text dict_of_pairs_def text_pairs_def fold_map comp_def)

lemma parse_conf_item_malformed:
  assumes "t \<noteq> []" "\<not> well_formed_text t"
  shows "parse_conf_item (PStr t) = Inl ValueError"
  using assms by (simp add: parse_conf_item_text)

lemma well_formed_text_iff:
  "well_formed_text t \<longleftrightarrow> list_all (\<lambda>l. count_list l space = 1) (str_split newline t)"
  by (simp add: well_formed_text_def length_str_split)

lemma text_pairs_first_space:
  assumes "well_formed_text t"
  shows "text_pairs t = map split_first_space (str_split newline t)"
  unfolding text_pairs_def
proof (rule map_cong [OF refl])
  fix l assume "l \<in> set (str_split newline t)"
  with assms have "count_list l space = 1"
    by (simp add: well_formed_text_iff list_all_iff)
  from str_split_two [OF this]
  show "(str_split space l ! 0, str_split space l ! 1) = split_first_space l"
    by (simp add: split_first_space_def)
qed

lemma maxquant_entry:
  assumes "parse_settings le a h = (Inr r, h')"
    and "field = ''modification_mapping'' \<or> field = ''fixed_modifications''"
    and "map_of (h a) field = Some v"
  shows "\<exists>d. parse_conf_item v = Inr d \<and> map_of (maxquant_to_rescore r) field = Some d"
  using parse_settings_InrD [OF assms(1)] assms(2,3) by auto

section \<open>Outcomes\<close>

lemma item_parses_iff:
  "item_parses h a k \<longleftrightarrow> (\<exists>v d. map_of (h a) k = Some v \<and> parse_conf_item v = Inr d)"
  by (auto simp add: item_parses_def split: option.splits sum.splits)

lemma not_item_parses_iff:
  "\<not> item_parses h a k \<longleftrightarrow>
     map_of (h a) k = None \<or> (\<exists>v e. map_of (h a) k = Some v \<and> parse_conf_item v = Inl e)"
  by (auto simp add: item_parses_def split: option.splits sum.splits)

lemma present_iff: "present h a k \<longleftrightarrow> (\<exists>v. map_of (h a) k = Some v)"
  by (simp add: present_def)

lemma key_missing_mapping:
  "map_of (h a) ''modification_mapping'' = None \<Longrightarrow>
   fst (parse_settings le a h) = Inl (KeyError ''modification_mapping'')"
  by (simp add: parse_settings_steps)

lemma key_missing_fixed:
  "reaches_pop ''fixed_modifications'' h a \<Longrightarrow> map_of (h a) ''fixed_modifications'' = None \<Longrightarrow>
   fst (parse_settings le a h) = Inl (KeyError ''fixed_modifications'')"
  by (auto simp add: parse_settings_steps reaches_pop_def item_parses_iff)

lemma key_missing_model:
  "reaches_pop ''ms2pip_model'' h a \<Longrightarrow> map_of (h a) ''ms2pip_model'' = None \<Longrightarrow>
   fst (parse_settings le a h) = Inl (KeyError ''ms2pip_model'')"
  by (auto simp add: parse_settings_steps reaches_pop_def item_parses_iff)

lemma key_missing_frag_error:
  "reaches_pop ''ms2pip_frag_error'' h a \<Longrightarrow> map_of (h a) ''ms2pip_frag_error'' = None \<Longrightarrow>
   fst (parse_settings le a h) = Inl (KeyError ''ms2pip_frag_error'')"
  by (auto simp add: parse_settings_steps reaches_pop_def item_parses_iff present_iff)

lemma key_missing_modifications:
  "reaches_pop ''ms2pip_modifications'' h a \<Longrightarrow> map_of (h a) ''ms2pip_modifications'' = None \<Longrightarrow>
   fst (parse_settings le a h) = Inl (MS2RescoreGUIError ms2pip_msg)"
  by (auto simp add: parse_settings_steps reaches_pop_def item_parses_iff present_iff)

lemma modifications_outcome:
  assumes "reaches_pop ''ms2pip_modifications'' h a"
    and "map_of (h a) ''ms2pip_modifications'' = Some t"
  shows "case literal_eval le t of
           Inl e \<Rightarrow> fst (parse_settings le a h) = Inl (MS2RescoreGUIError ms2pip_msg)
         | Inr v \<Rightarrow> (\<exists>r. fst (parse_settings le a h) = Inr r \<and>
                         map_of (ms2pip r) ''modifications'' = Some v)"
  using assms
  by (auto simp add: parse_settings_steps reaches_pop_def item_parses_iff present_iff
           split: sum.split)

lemma mapping_fails:
  "map_of (h a) ''modification_mapping'' = Some v \<Longrightarrow> parse_conf_item v = Inl e \<Longrightarrow>
   fst (parse_settings le a h) = Inl (MS2RescoreGUIError maxquant_msg)"
  by (simp add: parse_settings_steps)

lemma fixed_fails:
  "reaches_pop ''fixed_modifications'' h a \<Longrightarrow>
   map_of (h a) ''fixed_modifications'' = Some v \<Longrightarrow> parse_conf_item v = Inl e \<Longrightarrow>
   fst (parse_settings le a h) = Inl (MS2RescoreGUIError maxquant_msg)"
  by (auto simp add: parse_settings_steps reaches_pop_def item_parses_iff)

lemma maxquant_error_iff:
  "fst (parse_settings le a h) = Inl (MS2RescoreGUIError maxquant_msg) \<longleftrightarrow>
     present h a ''modification_mapping'' \<and>
     (\<not> item_parses h a ''modification_mapping'' \<or>
      present h a ''fixed_modifications'' \<and> \<not> item_parses h a ''fixed_modifications'')"
  by (auto simp add: parse_settings_steps present_def item_parses_def msgs_differ [symmetric]
        split: option.split sum.split)

lemma ms2pip_error_iff:
  "fst (parse_settings le a h) = Inl (MS2RescoreGUIError ms2pip_msg) \<longleftrightarrow>
     reaches_pop ''ms2pip_modifications'' h a \<and>
     (case map_of (h a) ''ms2pip_modifications'' of
        None \<Rightarrow> True
      | Some t \<Rightarrow> (case literal_eval le t of Inl e \<Rightarrow> True | Inr v \<Rightarrow> False))"
  by (auto simp add: parse_settings_steps reaches_pop_def present_def item_parses_def msgs_differ
        split: option.split sum.split)

lemma key_error_iff:
  "fst (parse_settings le a h) = Inl (KeyError k) \<longleftrightarrow>
     k \<in> {''modification_mapping'', ''fixed_modifications'', ''ms2pip_model'', ''ms2pip_frag_error''} \<and>
     reaches_pop k h a \<and> map_of (h a) k = None"
  by (auto simp add: parse_settings_steps reaches_pop_def present_def item_parses_def
        split: option.split sum.split)

lemma error_kinds:
  "fst (parse_settings le a h) = Inl e \<Longrightarrow>
     e \<in> {KeyError ''modification_mapping'', KeyError ''fixed_modifications'',
          KeyError ''ms2pip_model'', KeyError ''ms2pip_frag_error'',
          MS2RescoreGUIError maxquant_msg, MS2RescoreGUIError ms2pip_msg}"
  by (simp add: parse_settings_steps split: option.splits sum.splits)

section \<open>Runs on concrete inputs\<close>

lemma one_object_update: "(one_object d)(0 := d') = one_object d'"
  by (simp add: one_object_def fun_eq_iff)

lemmas eval_defs = parse_settings_steps one_object_def form_values_def parse_conf_item_def
  space_def newline_def dict_setitem_def literal_eval_def literal_eval_excerpt_def
  relocated_def without_def

lemma run_example:
  "parse_settings literal_eval_excerpt 0
     (one_object (form_values (''ox Oxidation'' @ [newline] @ ''ac Acetyl'')
                    ''C Carbamidomethyl'' ''[]'')) =
   (Inr \<lparr> general = 0,
          maxquant_to_rescore =
            [(''modification_mapping'', [(''ox'', ''Oxidation''), (''ac'', ''Acetyl'')]),
             (''fixed_modifications'', [(''C'', ''Carbamidomethyl'')])],
          ms2pip = [(''model'', PStr ''HCD2021''),
                    (''frag_error'', PFloat 0x3F947AE147AE147B),
                    (''modifications'', PList [])] \<rparr>,
    one_object [(''identification_file'', PStr ''msms.txt''), (''pipeline'', PStr ''infer'')])"
  by (simp add: eval_defs fun_eq_iff)

lemma run_empty:
  "parse_settings literal_eval_excerpt 0 (one_object (form_values [] [] ''[]'')) =
   (Inr \<lparr> general = 0,
          maxquant_to_rescore = [(''modification_mapping'', []), (''fixed_modifications'', [])],
          ms2pip = [(''model'', PStr ''HCD2021''),
                    (''frag_error'', PFloat 0x3F947AE147AE147B),
                    (''modifications'', PList [])] \<rparr>,
    one_object [(''identification_file'', PStr ''msms.txt''), (''pipeline'', PStr ''infer'')])"
  by (simp add: eval_defs fun_eq_iff)

lemma run_bad_mapping:
  "fst (parse_settings literal_eval_excerpt 0
          (one_object (form_values ''Oxidation'' ''C Carbamidomethyl'' ''[]''))) =
   Inl (MS2RescoreGUIError maxquant_msg)"
  by (simp add: eval_defs)

lemma run_bad_fixed:
  "fst (parse_settings literal_eval_excerpt 0
          (one_object (form_values ''ox Oxidation'' ''Carbamidomethyl'' ''[]''))) =
   Inl (MS2RescoreGUIError maxquant_msg)"
  by (simp add: eval_defs)

lemma msg_names_no_field:
  "\<not> str_contains ''modification_mapping'' maxquant_msg \<and>
   \<not> str_contains ''fixed_modifications'' maxquant_msg"
  by (simp add: maxquant_msg_def)

lemma run_empty_name:
  "fst (parse_settings literal_eval_excerpt 0
          (one_object (form_values ''ox '' ''C Carbamidomethyl'' ''[]''))) =
   Inr \<lparr> general = 0,
          maxquant_to_rescore =
            [(''modification_mapping'', [(''ox'', [])]),
             (''fixed_modifications'', [(''C'', ''Carbamidomethyl'')])],
          ms2pip = [(''model'', PStr ''HCD2021''),
                    (''frag_error'', PFloat 0x3F947AE147AE147B),
                    (''modifications'', PList [])] \<rparr>"
  by (simp add: eval_defs)

lemma run_name_with_space:
  "fst (parse_settings literal_eval_excerpt 0
          (one_object (form_values ''ox Oxidation'' ''C Carbamido methyl'' ''[]''))) =
   Inl (MS2RescoreGUIError maxquant_msg)"
  by (simp add: eval_defs)

lemma literal_eval_text: "literal_eval le (PStr t) = le t"
  by (simp add: literal_eval_def)

section \<open>The claims\<close>

text \<open>
  C1. For the input mapping that contains fixed_modifications = "C Carbamidomethyl",
  modification_mapping = "ox Oxidation\nac Acetyl", ms2pip_model = "HCD2021",
  ms2pip_frag_error = 0.02 and ms2pip_modifications = "[]", whatever else it contains,
  \<open>parse_settings\<close> returns a configuration whose maxquant_to_rescore section is the
  dictionary {"fixed_modifications": {"C": "Carbamidomethyl"}, "modification_mapping":
  {"ox": "Oxidation", "ac": "Acetyl"}} and whose ms2pip section is the dictionary
  {"model": "HCD2021", "frag_error": 0.02, "modifications": []}. Two dictionaries are
  equal when they map the same keys to the same values; \<open>ast.literal_eval\<close> is taken
  to give the empty list on "[]".
\<close>

theorem C1_end_to_end_example:
  assumes "map_of (h a) ''fixed_modifications'' = Some (PStr ''C Carbamidomethyl'')"
    and "map_of (h a) ''modification_mapping'' =
           Some (PStr (''ox Oxidation'' @ [newline] @ ''ac Acetyl''))"
    and "map_of (h a) ''ms2pip_model'' = Some (PStr ''HCD2021'')"
    and "map_of (h a) ''ms2pip_frag_error'' = Some (PFloat 0x3F947AE147AE147B)"
    and "map_of (h a) ''ms2pip_modifications'' = Some (PStr ''[]'')"
    and "le ''[]'' = Inr (PList [])"
  shows "\<exists>r h'. parse_settings le a h = (Inr r, h') \<and>
           map_of (maxquant_to_rescore r) =
             map_of [(''fixed_modifications'', [(''C'', ''Carbamidomethyl'')]),
                     (''modification_mapping'', [(''ox'', ''Oxidation''), (''ac'', ''Acetyl'')])] \<and>
           map_of (ms2pip r) =
             map_of [(''model'', PStr ''HCD2021''),
                     (''frag_error'', PFloat 0x3F947AE147AE147B),
                     (''modifications'', PList [])]"
proof -
  have fixed: "parse_conf_item (PStr ''C Carbamidomethyl'') = Inr [(''C'', ''Carbamidomethyl'')]"
    by (simp add: parse_conf_item_def space_def newline_def dict_setitem_def)
  have mapping: "parse_conf_item (PStr (''ox Oxidation'' @ [newline] @ ''ac Acetyl'')) =
      Inr [(''ox'', ''Oxidation''), (''ac'', ''Acetyl'')]"
    by (simp add: parse_conf_item_def space_def newline_def dict_setitem_def)
  have mods: "literal_eval le (PStr ''[]'') = Inr (PList [])"
    using assms(6) by (simp add: literal_eval_def)
  have "parse_settings le a h =
          (Inr \<lparr> general = a,
                 maxquant_to_rescore =
                   [(''modification_mapping'', [(''ox'', ''Oxidation''), (''ac'', ''Acetyl'')]),
                    (''fixed_modifications'', [(''C'', ''Carbamidomethyl'')])],
                 ms2pip = [(''model'', PStr ''HCD2021''),
                           (''frag_error'', PFloat 0x3F947AE147AE147B),
                           (''modifications'', PList [])] \<rparr>,
           h(a := without relocated (h a)))"
    using assms(1-5) mapping fixed mods by (simp add: parse_settings_steps)
  moreover have "map_of [(''modification_mapping'', [(''ox'', ''Oxidation''), (''ac'', ''Acetyl'')]),
                        (''fixed_modifications'', [(''C'', ''Carbamidomethyl'')])] =
                 map_of [(''fixed_modifications'', [(''C'', ''Carbamidomethyl'')]),
                         (''modification_mapping'', [(''ox'', ''Oxidation''), (''ac'', ''Acetyl'')])]"
    by (auto simp add: fun_eq_iff)
  ultimately show ?thesis
    by simp
qed

theorem C1_end_to_end_example_witness:
  "\<exists>r h'. parse_settings literal_eval_excerpt 0
             (one_object (form_values (''ox Oxidation'' @ [newline] @ ''ac Acetyl'')
                            ''C Carbamidomethyl'' ''[]'')) = (Inr r, h') \<and>
           map_of (maxquant_to_rescore r) =
             map_of [(''fixed_modifications'', [(''C'', ''Carbamidomethyl'')]),
                     (''modification_mapping'', [(''ox'', ''Oxidation''), (''ac'', ''Acetyl'')])] \<and>
           map_of (ms2pip r) =
             map_of [(''model'', PStr ''HCD2021''),
                     (''frag_error'', PFloat 0x3F947AE147AE147B),
                     (''modifications'', PList [])]"
  using C1_end_to_end_example
    [of "one_object (form_values (''ox Oxidation'' @ [newline] @ ''ac Acetyl'')
                            ''C Carbamidomethyl'' ''[]'')" 0 literal_eval_excerpt]
  by (simp add: one_object_def form_values_def literal_eval_excerpt_def)

text \<open>
  C5. Whenever \<open>parse_settings\<close> succeeds, the general section (the caller's dictionary
  after the call) holds none of the five relocated keys modification_mapping,
  fixed_modifications, ms2pip_model, ms2pip_frag_error and ms2pip_modifications; the two
  MaxQuant fields are the keys of maxquant_to_rescore, each with the parsed form of its
  input value; the three MS2PIP fields are the keys model, frag_error and modifications of
  ms2pip, the first two with their input values and the third with the value of the
  literal; and every other key of the input is in general with its value unchanged.
\<close>

theorem C5_relocated_keys:
  assumes "parse_settings le a h = (Inr r, h')"
  shows "general r = a \<and>
         h' (general r) = without relocated (h a) \<and>
         list_all (\<lambda>k. map_of (h' (general r)) k = None) relocated \<and>
         (\<forall>k. k \<notin> set relocated \<longrightarrow> map_of (h' (general r)) k = map_of (h a) k) \<and>
         map fst (maxquant_to_rescore r) = [''modification_mapping'', ''fixed_modifications''] \<and>
         (\<exists>v d. map_of (h a) ''modification_mapping'' = Some v \<and> parse_conf_item v = Inr d \<and>
                map_of (maxquant_to_rescore r) ''modification_mapping'' = Some d) \<and>
         (\<exists>v d. map_of (h a) ''fixed_modifications'' = Some v \<and> parse_conf_item v = Inr d \<and>
                map_of (maxquant_to_rescore r) ''fixed_modifications'' = Some d) \<and>
         map fst (ms2pip r) = [''model'', ''frag_error'', ''modifications''] \<and>
         map_of (ms2pip r) ''model'' = map_of (h a) ''ms2pip_model'' \<and>
         map_of (ms2pip r) ''frag_error'' = map_of (h a) ''ms2pip_frag_error'' \<and>
         (\<exists>t v. map_of (h a) ''ms2pip_modifications'' = Some t \<and> literal_eval le t = Inr v \<and>
                map_of (ms2pip r) ''modifications'' = Some v)"
proof -
  from parse_settings_InrD [OF assms]
  obtain v1 i1 v2 i2 m f t mods where
    v1: "map_of (h a) ''modification_mapping'' = Some v1" and i1: "parse_conf_item v1 = Inr i1" and
    v2: "map_of (h a) ''fixed_modifications'' = Some v2" and i2: "parse_conf_item v2 = Inr i2" and
    m: "map_of (h a) ''ms2pip_model'' = Some m" and
    f: "map_of (h a) ''ms2pip_frag_error'' = Some f" and
    t: "map_of (h a) ''ms2pip_modifications'' = Some t" and mods: "literal_eval le t = Inr mods" and
    r: "r = \<lparr> general = a,
               maxquant_to_rescore =
                 [(''modification_mapping'', i1), (''fixed_modifications'', i2)],
               ms2pip = [(''model'', m), (''frag_error'', f), (''modifications'', mods)] \<rparr>" and
    h': "h' = h(a := without relocated (h a))"
    by blast
  have g: "general r = a" by (simp add: r)
  have heap: "h' (general r) = without relocated (h a)" by (simp add: g h')
  have gone: "list_all (\<lambda>k. map_of (h' (general r)) k = None) relocated"
    by (simp add: heap map_of_without) (simp add: relocated_def)
  have kept: "\<forall>k. k \<notin> set relocated \<longrightarrow> map_of (h' (general r)) k = map_of (h a) k"
    by (simp add: heap map_of_without)
  have mq: "map fst (maxquant_to_rescore r) = [''modification_mapping'', ''fixed_modifications'']"
    by (simp add: r)
  have mq1: "\<exists>v d. map_of (h a) ''modification_mapping'' = Some v \<and> parse_conf_item v = Inr d \<and>
                map_of (maxquant_to_rescore r) ''modification_mapping'' = Some d"
    using v1 i1 by (simp add: r)
  have mq2: "\<exists>v d. map_of (h a) ''fixed_modifications'' = Some v \<and> parse_conf_item v = Inr d \<and>
                map_of (maxquant_to_rescore r) ''fixed_modifications'' = Some d"
    using v2 i2 by (simp add: r)
  have ms: "map fst (ms2pip r) = [''model'', ''frag_error'', ''modifications'']"
    by (simp add: r)
  have ms1: "map_of (ms2pip r) ''model'' = map_of (h a) ''ms2pip_model''"
    using m by (simp add: r)
  have ms2: "map_of (ms2pip r) ''frag_error'' = map_of (h a) ''ms2pip_frag_error''"
    using f by (simp add: r)
  have ms3: "\<exists>t v. map_of (h a) ''ms2pip_modifications'' = Some t \<and> literal_eval le t = Inr v \<and>
                map_of (ms2pip r) ''modifications'' = Some v"
    using t mods by (simp add: r)
  from g heap gone kept mq mq1 mq2 ms ms1 ms2 ms3 show ?thesis
    by blast
qed


theorem C5_relocated_keys_witness:
  "parse_settings literal_eval_excerpt 0
     (one_object (form_values (''ox Oxidation'' @ [newline] @ ''ac Acetyl'')
                    ''C Carbamidomethyl'' ''[]'')) =
   (Inr \<lparr> general = 0,
          maxquant_to_rescore =
            [(''modification_mapping'', [(''ox'', ''Oxidation''), (''ac'', ''Acetyl'')]),
             (''fixed_modifications'', [(''C'', ''Carbamidomethyl'')])],
          ms2pip = [(''model'', PStr ''HCD2021''),
                    (''frag_error'', PFloat 0x3F947AE147AE147B),
                    (''modifications'', PList [])] \<rparr>,
    one_object [(''identification_file'', PStr ''msms.txt''), (''pipeline'', PStr ''infer'')]) \<and>
   without relocated
     (form_values (''ox Oxidation'' @ [newline] @ ''ac Acetyl'') ''C Carbamidomethyl'' ''[]'') =
   [(''identification_file'', PStr ''msms.txt''), (''pipeline'', PStr ''infer'')]"
  using C5_relocated_keys [OF run_example] run_example
  by (simp add: one_object_def)

text \<open>
  C6. When the modification_mapping or fixed_modifications text is empty, the \<open>try\<close>
  block of the loop gives the empty mapping for it and raises nothing; whenever
  \<open>parse_settings\<close> returns, the field is mapped to the empty mapping in
  maxquant_to_rescore; and no error comes from that field: the call never raises KeyError
  for it, and when it raises the MaxQuant configuration error, the other MaxQuant field is
  the one that is absent or does not parse.
\<close>

theorem C6_empty_text:
  assumes "field = ''modification_mapping'' \<or> field = ''fixed_modifications''"
    and "map_of (h a) field = Some (PStr [])"
  shows "parse_conf_item (PStr []) = Inr [] \<and>
         (\<forall>r h'. parse_settings le a h = (Inr r, h') \<longrightarrow>
                 map_of (maxquant_to_rescore r) field = Some []) \<and>
         fst (parse_settings le a h) \<noteq> Inl (KeyError field) \<and>
         (fst (parse_settings le a h) = Inl (MS2RescoreGUIError maxquant_msg) \<longrightarrow>
            \<not> item_parses h a (if field = ''modification_mapping''
                                 then ''fixed_modifications''
                                 else ''modification_mapping''))"
proof (intro conjI allI impI)
  show "parse_conf_item (PStr []) = Inr []"
    by (rule parse_conf_item_empty)
next
  fix r h'
  assume "parse_settings le a h = (Inr r, h')"
  from maxquant_entry [OF this assms] show "map_of (maxquant_to_rescore r) field = Some []"
    by (simp add: parse_conf_item_empty)
next
  from assms(2) show "fst (parse_settings le a h) \<noteq> Inl (KeyError field)"
    by (simp add: key_error_iff)
next
  have ok: "item_parses h a field"
    using assms(2) by (simp add: item_parses_iff parse_conf_item_empty)
  assume "fst (parse_settings le a h) = Inl (MS2RescoreGUIError maxquant_msg)"
  with ok assms(1)
  show "\<not> item_parses h a (if field = ''modification_mapping''
                            then ''fixed_modifications''
                            else ''modification_mapping'')"
    by (auto simp add: maxquant_error_iff)
qed

theorem C6_empty_text_witness:
  "parse_conf_item (PStr []) = Inr [] \<and>
   parse_settings literal_eval_excerpt 0 (one_object (form_values [] [] ''[]'')) =
   (Inr \<lparr> general = 0,
          maxquant_to_rescore = [(''modification_mapping'', []), (''fixed_modifications'', [])],
          ms2pip = [(''model'', PStr ''HCD2021''),
                    (''frag_error'', PFloat 0x3F947AE147AE147B),
                    (''modifications'', PList [])] \<rparr>,
    one_object [(''identification_file'', PStr ''msms.txt''), (''pipeline'', PStr ''infer'')]) \<and>
   map_of (maxquant_to_rescore
     \<lparr> general = 0,
          maxquant_to_rescore = [(''modification_mapping'', []), (''fixed_modifications'', [])],
          ms2pip = [(''model'', PStr ''HCD2021''),
                    (''frag_error'', PFloat 0x3F947AE147AE147B),
                    (''modifications'', PList [])] \<rparr>) ''fixed_modifications'' = Some []"
  using C6_empty_text [of "''fixed_modifications''" "one_object (form_values [] [] ''[]'')" 0
          literal_eval_excerpt]
    C6_empty_text [of "''modification_mapping''" "one_object (form_values [] [] ''[]'')" 0
          literal_eval_excerpt]
    run_empty
  by (simp add: one_object_def form_values_def)

text \<open>
  C7. For a non-empty modification_mapping or fixed_modifications text in which every
  line is exactly two space-separated tokens, the parsed mapping has one entry per distinct
  short label (its keys are distinct and are exactly the labels of the lines), and a label
  that occurs on several lines is mapped to the full name of its last occurrence: looking a
  label up in the mapping is looking it up in the lines read from the last to the first.
  This mapping is what \<open>parse_settings\<close> returns for the field.
\<close>

theorem C7_last_duplicate_wins:
  assumes "field = ''modification_mapping'' \<or> field = ''fixed_modifications''"
    and "map_of (h a) field = Some (PStr t)"
    and "t \<noteq> []"
    and "well_formed_text t"
  shows "\<exists>d. parse_conf_item (PStr t) = Inr d \<and>
             distinct (map fst d) \<and>
             set (map fst d) = set (map fst (text_pairs t)) \<and>
             (\<forall>k. map_of d k = map_of (rev (text_pairs t)) k) \<and>
             (\<forall>r h'. parse_settings le a h = (Inr r, h') \<longrightarrow>
                     map_of (maxquant_to_rescore r) field = Some d)"
proof (intro exI conjI allI impI)
  show item: "parse_conf_item (PStr t) = Inr (dict_of_pairs (text_pairs t))"
    using assms(3,4) by (rule parse_conf_item_well_formed)
  show "distinct (map fst (dict_of_pairs (text_pairs t)))"
    by (rule distinct_dict_of_pairs)
  show "set (map fst (dict_of_pairs (text_pairs t))) = set (map fst (text_pairs t))"
    by (rule keys_dict_of_pairs)
  show "map_of (dict_of_pairs (text_pairs t)) k = map_of (rev (text_pairs t)) k" for k
    by (rule map_of_dict_of_pairs)
  show "map_of (maxquant_to_rescore r) field = Some (dict_of_pairs (text_pairs t))"
    if "parse_settings le a h = (Inr r, h')" for r h'
    using maxquant_entry [OF that assms(1,2)] item by simp
qed

theorem C7_last_duplicate_wins_witness:
  "well_formed_text (''ox Oxidation'' @ [newline] @ ''ac Acetyl'' @ [newline] @ ''ox Dioxidation'') \<and>
   text_pairs (''ox Oxidation'' @ [newline] @ ''ac Acetyl'' @ [newline] @ ''ox Dioxidation'') =
     [(''ox'', ''Oxidation''), (''ac'', ''Acetyl''), (''ox'', ''Dioxidation'')] \<and>
   parse_conf_item
     (PStr (''ox Oxidation'' @ [newline] @ ''ac Acetyl'' @ [newline] @ ''ox Dioxidation'')) =
     Inr [(''ox'', ''Dioxidation''), (''ac'', ''Acetyl'')]"
  using C7_last_duplicate_wins
    [of "''modification_mapping''"
        "one_object (form_values
           (''ox Oxidation'' @ [newline] @ ''ac Acetyl'' @ [newline] @ ''ox Dioxidation'')
           ''C Carbamidomethyl'' ''[]'')"
        0 "''ox Oxidation'' @ [newline] @ ''ac Acetyl'' @ [newline] @ ''ox Dioxidation''"
        literal_eval_excerpt]
  by (simp add: one_object_def form_values_def well_formed_text_def text_pairs_def
        parse_conf_item_def space_def newline_def dict_setitem_def)

text \<open>
  C2 as stated fails in two ways. The error raised for a malformed line does not name
  which of the two fields was malformed: a malformed modification_mapping and a malformed
  fixed_modifications raise the same exception with the same message, and the message
  contains neither field name. And not every line that lacks two tokens raises: the line
  is cut at every space and only the number of pieces is checked, so a line with exactly
  one space goes through when a piece is empty. The line "ox " (one token) gives the entry
  "ox" with the empty name, " Oxidation" gives the empty label, a single space (no token)
  gives the empty label with the empty name, and \<open>parse_settings\<close> returns.
\<close>

theorem C2_malformed_line_counterexample:
  "fst (parse_settings literal_eval_excerpt 0
          (one_object (form_values ''Oxidation'' ''C Carbamidomethyl'' ''[]''))) =
   Inl (MS2RescoreGUIError maxquant_msg) \<and>
   fst (parse_settings literal_eval_excerpt 0
          (one_object (form_values ''ox Oxidation'' ''Carbamidomethyl'' ''[]''))) =
   Inl (MS2RescoreGUIError maxquant_msg) \<and>
   \<not> str_contains ''modification_mapping'' maxquant_msg \<and>
   \<not> str_contains ''fixed_modifications'' maxquant_msg \<and>
   str_split space ''ox '' = [''ox'', []] \<and>
   parse_conf_item (PStr ''ox '') = Inr [(''ox'', [])] \<and>
   parse_conf_item (PStr '' Oxidation'') = Inr [([], ''Oxidation'')] \<and>
   parse_conf_item (PStr '' '') = Inr [([], [])] \<and>
   fst (parse_settings literal_eval_excerpt 0
          (one_object (form_values ''ox '' ''C Carbamidomethyl'' ''[]''))) =
   Inr \<lparr> general = 0,
          maxquant_to_rescore =
            [(''modification_mapping'', [(''ox'', [])]),
             (''fixed_modifications'', [(''C'', ''Carbamidomethyl'')])],
          ms2pip = [(''model'', PStr ''HCD2021''),
                    (''frag_error'', PFloat 0x3F947AE147AE147B),
                    (''modifications'', PList [])] \<rparr>"
  using run_bad_mapping run_bad_fixed msg_names_no_field run_empty_name
  by (simp add: parse_conf_item_def space_def newline_def dict_setitem_def)

text \<open>
  C2, amended. For every input that has a modification_mapping entry and in which the
  modification_mapping or the fixed_modifications text is non-empty and contains a line
  that does not contain exactly one space character (no space at all, as a lone token or
  an empty line, or more than one space, as three tokens or two tokens two spaces apart),
  \<open>parse_settings\<close> raises MS2RescoreGUIError with the one message it has for the MaxQuant
  modification configuration, the same for both fields; no such line is silently dropped.
\<close>

theorem C2_malformed_line_raises:
  assumes "map_of (h a) ''modification_mapping'' = Some v"
    and "v = PStr t \<or> map_of (h a) ''fixed_modifications'' = Some (PStr t)"
    and "t \<noteq> []"
    and "\<not> list_all (\<lambda>l. count_list l space = 1) (str_split newline t)"
  shows "fst (parse_settings le a h) = Inl (MS2RescoreGUIError maxquant_msg)"
proof -
  from assms(4) have "\<not> well_formed_text t"
    by (simp add: well_formed_text_iff)
  with assms(3) have bad: "parse_conf_item (PStr t) = Inl ValueError"
    by (rule parse_conf_item_malformed)
  from assms(2) show ?thesis
  proof
    assume "v = PStr t"
    with assms(1) bad show ?thesis
      by (simp add: mapping_fails)
  next
    assume "map_of (h a) ''fixed_modifications'' = Some (PStr t)"
    with assms(1) bad show ?thesis
      by (auto simp add: maxquant_error_iff present_iff not_item_parses_iff)
  qed
qed

theorem C2_malformed_line_raises_witness:
  "\<not> list_all (\<lambda>l. count_list l space = 1) (str_split newline ''Carbamidomethyl'') \<and>
   fst (parse_settings literal_eval_excerpt 0
          (one_object (form_values ''ox Oxidation'' ''Carbamidomethyl'' ''[]''))) =
   Inl (MS2RescoreGUIError maxquant_msg) \<and>
   \<not> list_all (\<lambda>l. count_list l space = 1)
        (str_split newline (''ox Oxidation'' @ [newline] @ ''ac  Acetyl'')) \<and>
   fst (parse_settings literal_eval_excerpt 0
          (one_object (form_values (''ox Oxidation'' @ [newline] @ ''ac  Acetyl'')
                         ''C Carbamidomethyl'' ''[]''))) =
   Inl (MS2RescoreGUIError maxquant_msg)"
  using C2_malformed_line_raises
    [of "one_object (form_values ''ox Oxidation'' ''Carbamidomethyl'' ''[]'')" 0
        "PStr ''ox Oxidation''" "''Carbamidomethyl''" literal_eval_excerpt]
    C2_malformed_line_raises
    [of "one_object (form_values (''ox Oxidation'' @ [newline] @ ''ac  Acetyl'')
                       ''C Carbamidomethyl'' ''[]'')" 0
        "PStr (''ox Oxidation'' @ [newline] @ ''ac  Acetyl'')"
        "''ox Oxidation'' @ [newline] @ ''ac  Acetyl''" literal_eval_excerpt]
  by (simp add: one_object_def form_values_def space_def newline_def)

text \<open>
  C3 as stated says that a line is split on its first space, so that "C Carbamido methyl"
  yields the pair ("C", "Carbamido methyl"). The code splits on every space: the line gives
  three tokens, \<open>dict\<close> raises ValueError and \<open>parse_settings\<close> raises MS2RescoreGUIError.
\<close>

theorem C3_split_on_first_space_counterexample:
  "str_split space ''C Carbamido methyl'' = [''C'', ''Carbamido'', ''methyl''] \<and>
   parse_conf_item (PStr ''C Carbamido methyl'') = Inl ValueError \<and>
   fst (parse_settings literal_eval_excerpt 0
          (one_object (form_values ''ox Oxidation'' ''C Carbamido methyl'' ''[]''))) =
   Inl (MS2RescoreGUIError maxquant_msg)"
  using run_name_with_space
  by (simp add: parse_conf_item_def space_def newline_def)

text \<open>
  C3, amended. For every non-empty modification_mapping or fixed_modifications text,
  \<open>parse_settings\<close> splits the text on newlines and each line on every space. When every
  line contains exactly one space, each line yields the pair of the part before the space
  and the part after it, and the pairs are collected into the mapping returned for the
  field. When some line does not contain exactly one space, as "C Carbamido methyl" whose
  full name contains a space, no mapping is built: \<open>parse_settings\<close> does not return, and
  it raises MS2RescoreGUIError whenever modification_mapping is present.
\<close>

theorem C3_split_on_every_space:
  assumes "field = ''modification_mapping'' \<or> field = ''fixed_modifications''"
    and "map_of (h a) field = Some (PStr t)"
    and "t \<noteq> []"
  shows "if list_all (\<lambda>l. count_list l space = 1) (str_split newline t)
         then parse_conf_item (PStr t) =
                Inr (dict_of_pairs (map split_first_space (str_split newline t))) \<and>
              (\<forall>r h'. parse_settings le a h = (Inr r, h') \<longrightarrow>
                 map_of (maxquant_to_rescore r) field =
                   Some (dict_of_pairs (map split_first_space (str_split newline t))))
         else parse_conf_item (PStr t) = Inl ValueError \<and>
              (\<forall>r. fst (parse_settings le a h) \<noteq> Inr r) \<and>
              (present h a ''modification_mapping'' \<longrightarrow>
                 fst (parse_settings le a h) = Inl (MS2RescoreGUIError maxquant_msg))"
proof (cases "well_formed_text t")
  case True
  have item: "parse_conf_item (PStr t) =
      Inr (dict_of_pairs (map split_first_space (str_split newline t)))"
    using parse_conf_item_well_formed [OF assms(3) True] text_pairs_first_space [OF True]
    by simp
  have "map_of (maxquant_to_rescore r) field =
          Some (dict_of_pairs (map split_first_space (str_split newline t)))"
    if "parse_settings le a h = (Inr r, h')" for r h'
    using maxquant_entry [OF that assms(1,2)] item by simp
  with item True show ?thesis
    by (simp add: well_formed_text_iff)
next
  case False
  have item: "parse_conf_item (PStr t) = Inl ValueError"
    using assms(3) False by (rule parse_conf_item_malformed)
  have none: "fst (parse_settings le a h) \<noteq> Inr r" for r
  proof
    assume "fst (parse_settings le a h) = Inr r"
    then have "parse_settings le a h = (Inr r, snd (parse_settings le a h))"
      by (simp add: prod_eq_iff)
    from maxquant_entry [OF this assms(1,2)] item show False by simp
  qed
  have "fst (parse_settings le a h) = Inl (MS2RescoreGUIError maxquant_msg)"
    if "present h a ''modification_mapping''"
    using that assms(1,2) item
    by (auto simp add: maxquant_error_iff present_iff not_item_parses_iff)
  with item none False show ?thesis
    by (simp add: well_formed_text_iff)
qed

theorem C3_split_on_every_space_witness:
  "parse_conf_item (PStr (''ox Oxidation'' @ [newline] @ ''ac Acetyl'')) =
     Inr [(''ox'', ''Oxidation''), (''ac'', ''Acetyl'')] \<and>
   dict_of_pairs (map split_first_space
     (str_split newline (''ox Oxidation'' @ [newline] @ ''ac Acetyl''))) =
     [(''ox'', ''Oxidation''), (''ac'', ''Acetyl'')] \<and>
   parse_conf_item (PStr ''C Carbamido methyl'') = Inl ValueError"
  using C3_split_on_every_space
      [of "''modification_mapping''"
          "one_object (form_values (''ox Oxidation'' @ [newline] @ ''ac Acetyl'')
                         ''C Carbamidomethyl'' ''[]'')"
          0 "''ox Oxidation'' @ [newline] @ ''ac Acetyl''" literal_eval_excerpt]
    C3_split_on_every_space
      [of "''fixed_modifications''"
          "one_object (form_values ''ox Oxidation'' ''C Carbamido methyl'' ''[]'')"
          0 "''C Carbamido methyl''" literal_eval_excerpt]
  by (simp add: one_object_def form_values_def dict_of_pairs_def split_first_space_def
        space_def newline_def dict_setitem_def parse_conf_item_def)

text \<open>
  C4 as stated says that general is a shallow copy and that the caller's mapping is left
  unchanged. The code binds general to the caller's dictionary itself and pops from it: a
  caller's mapping of seven entries holds two after the call.
\<close>

theorem C4_input_unchanged_counterexample:
  "one_object (form_values ''ox Oxidation'' ''C Carbamidomethyl'' ''[]'') 0 =
     [(''identification_file'', PStr ''msms.txt''),
      (''pipeline'', PStr ''infer''),
      (''fixed_modifications'', PStr ''C Carbamidomethyl''),
      (''modification_mapping'', PStr ''ox Oxidation''),
      (''ms2pip_model'', PStr ''HCD2021''),
      (''ms2pip_frag_error'', PFloat 0x3F947AE147AE147B),
      (''ms2pip_modifications'', PStr ''[]'')] \<and>
   snd (parse_settings literal_eval_excerpt 0
          (one_object (form_values ''ox Oxidation'' ''C Carbamidomethyl'' ''[]''))) 0 =
     [(''identification_file'', PStr ''msms.txt''), (''pipeline'', PStr ''infer'')] \<and>
   snd (parse_settings literal_eval_excerpt 0
          (one_object (form_values ''ox Oxidation'' ''C Carbamidomethyl'' ''[]''))) 0 \<noteq>
     one_object (form_values ''ox Oxidation'' ''C Carbamidomethyl'' ''[]'') 0"
  by (simp add: eval_defs)

text \<open>
  C4, amended. \<open>parse_settings\<close> builds the general section as the input mapping
  object itself, not a copy, and its only side effect is the removal of relocated keys
  from that object: after a successful call the caller's mapping holds its entries other
  than the five relocated keys, in their order; after any call it has lost the first n
  relocated keys for some n up to five and nothing else; and no other object is changed.
\<close>

theorem C4_general_is_the_input:
  "(\<forall>r. fst (parse_settings le a h) = Inr r \<longrightarrow>
        general r = a \<and> snd (parse_settings le a h) a = without relocated (h a)) \<and>
   (\<forall>b. b \<noteq> a \<longrightarrow> snd (parse_settings le a h) b = h b) \<and>
   (\<exists>n\<le>5. snd (parse_settings le a h) a = without (take n relocated) (h a))"
proof (intro conjI allI impI)
  fix r
  assume "fst (parse_settings le a h) = Inr r"
  then have run: "parse_settings le a h = (Inr r, snd (parse_settings le a h))"
    by (simp add: prod_eq_iff)
  from parse_settings_InrD [OF run]
  show "general r = a" and "snd (parse_settings le a h) a = without relocated (h a)"
    by auto
next
  from parse_settings_heap [of le a h]
  obtain n where n: "n \<le> 5"
    and eq: "snd (parse_settings le a h) = h(a := without (take n relocated) (h a))"
    by blast
  from eq show "snd (parse_settings le a h) b = h b" if "b \<noteq> a" for b
    using that by simp
  from n eq show "\<exists>n\<le>5. snd (parse_settings le a h) a = without (take n relocated) (h a)"
    by auto
qed

theorem C4_general_is_the_input_witness:
  "fst (parse_settings literal_eval_excerpt 0
          (one_object (form_values (''ox Oxidation'' @ [newline] @ ''ac Acetyl'')
                         ''C Carbamidomethyl'' ''[]''))) =
     Inr \<lparr> general = 0,
          maxquant_to_rescore =
            [(''modification_mapping'', [(''ox'', ''Oxidation''), (''ac'', ''Acetyl'')]),
             (''fixed_modifications'', [(''C'', ''Carbamidomethyl'')])],
          ms2pip = [(''model'', PStr ''HCD2021''),
                    (''frag_error'', PFloat 0x3F947AE147AE147B),
                    (''modifications'', PList [])] \<rparr> \<and>
   snd (parse_settings literal_eval_excerpt 0
          (one_object (form_values (''ox Oxidation'' @ [newline] @ ''ac Acetyl'')
                         ''C Carbamidomethyl'' ''[]''))) 0 =
     without relocated
       (form_values (''ox Oxidation'' @ [newline] @ ''ac Acetyl'') ''C Carbamidomethyl'' ''[]'') \<and>
   snd (parse_settings literal_eval_excerpt 0
          (one_object (form_values (''ox Oxidation'' @ [newline] @ ''ac Acetyl'')
                         ''C Carbamidomethyl'' ''[]''))) 1 = []"
  using C4_general_is_the_input
    [of literal_eval_excerpt 0
        "one_object (form_values (''ox Oxidation'' @ [newline] @ ''ac Acetyl'')
                       ''C Carbamidomethyl'' ''[]'')"]
    run_example
  by (simp add: one_object_def)

text \<open>
  C8 as stated says that the configuration error naming the MS2PIP modifications field is
  raised exactly when the ms2pip_modifications text is not a valid literal. With a
  malformed fixed_modifications text and the unparsable literal "[", the error raised is
  the MaxQuant one: the loop fails before the literal is looked at.
\<close>

theorem C8_modifications_error_counterexample:
  "literal_eval_excerpt ''['' = Inl SyntaxError \<and>
   fst (parse_settings literal_eval_excerpt 0
          (one_object (form_values ''ox Oxidation'' ''Carbamidomethyl'' ''[''))) =
     Inl (MS2RescoreGUIError maxquant_msg) \<and>
   fst (parse_settings literal_eval_excerpt 0
          (one_object (form_values ''ox Oxidation'' ''Carbamidomethyl'' ''[''))) \<noteq>
     Inl (MS2RescoreGUIError ms2pip_msg)"
proof -
  have "fst (parse_settings literal_eval_excerpt 0
          (one_object (form_values ''ox Oxidation'' ''Carbamidomethyl'' ''[''))) =
     Inl (MS2RescoreGUIError maxquant_msg)"
    by (simp add: eval_defs)
  then show ?thesis
    by (simp add: msgs_differ literal_eval_excerpt_def)
qed

text \<open>
  C8, amended. For an input with an ms2pip_modifications text, \<open>parse_settings\<close> raises
  MS2RescoreGUIError with the message of the MS2PIP modification configuration exactly
  when every step before the pop of ms2pip_modifications succeeds and the text does not
  parse as a literal; no ValueError, SyntaxError, TypeError, MemoryError, RecursionError or
  AttributeError ever leaves the function; and when the steps before succeed and the text
  is a valid literal, the value of the literal is stored under ms2pip.modifications.
\<close>

theorem C8_modifications_error:
  assumes "map_of (h a) ''ms2pip_modifications'' = Some (PStr t)"
  shows "(fst (parse_settings le a h) = Inl (MS2RescoreGUIError ms2pip_msg) \<longleftrightarrow>
            reaches_pop ''ms2pip_modifications'' h a \<and> (\<exists>e. le t = Inl e)) \<and>
         fst (parse_settings le a h) \<notin>
            {Inl ValueError, Inl SyntaxError, Inl TypeError, Inl MemoryError,
             Inl RecursionError, Inl AttributeError} \<and>
         (\<forall>v. reaches_pop ''ms2pip_modifications'' h a \<and> le t = Inr v \<longrightarrow>
              (\<exists>r. fst (parse_settings le a h) = Inr r \<and>
                   map_of (ms2pip r) ''modifications'' = Some v))"
proof (intro conjI allI impI)
  show "fst (parse_settings le a h) = Inl (MS2RescoreGUIError ms2pip_msg) \<longleftrightarrow>
          reaches_pop ''ms2pip_modifications'' h a \<and> (\<exists>e. le t = Inl e)"
    using assms by (auto simp add: ms2pip_error_iff literal_eval_text split: sum.splits)
next
  show "fst (parse_settings le a h) \<notin>
          {Inl ValueError, Inl SyntaxError, Inl TypeError, Inl MemoryError,
           Inl RecursionError, Inl AttributeError}"
    using error_kinds [of le a h] by auto
next
  fix v
  assume "reaches_pop ''ms2pip_modifications'' h a \<and> le t = Inr v"
  with modifications_outcome [of h a "PStr t" le] assms
  show "\<exists>r. fst (parse_settings le a h) = Inr r \<and>
             map_of (ms2pip r) ''modifications'' = Some v"
    by (simp add: literal_eval_text)
qed

theorem C8_modifications_error_witness:
  "reaches_pop ''ms2pip_modifications''
     (one_object (form_values ''ox Oxidation'' ''C Carbamidomethyl'' ''['')) 0 \<and>
   literal_eval_excerpt ''['' = Inl SyntaxError \<and>
   fst (parse_settings literal_eval_excerpt 0
          (one_object (form_values ''ox Oxidation'' ''C Carbamidomethyl'' ''[''))) =
     Inl (MS2RescoreGUIError ms2pip_msg)"
  using C8_modifications_error
    [of "one_object (form_values ''ox Oxidation'' ''C Carbamidomethyl'' ''['')" 0 "''[''"
        literal_eval_excerpt]
  by (simp add: one_object_def form_values_def literal_eval_excerpt_def reaches_pop_def
        item_parses_def present_def parse_conf_item_def space_def newline_def dict_setitem_def)

text \<open>
  C9 as stated says that an input lacking fixed_modifications, ms2pip_model or
  ms2pip_frag_error raises a raw KeyError. An input without fixed_modifications whose
  modification_mapping text is the single token "Oxidation" raises MS2RescoreGUIError: the
  first iteration of the loop fails before the missing key is popped.
\<close>

theorem C9_missing_key_counterexample:
  "map_of (one_object (without [''fixed_modifications'']
             (form_values ''Oxidation'' ''C Carbamidomethyl'' ''[]'')) 0)
     ''fixed_modifications'' = None \<and>
   fst (parse_settings literal_eval_excerpt 0
          (one_object (without [''fixed_modifications'']
             (form_values ''Oxidation'' ''C Carbamidomethyl'' ''[]'')))) =
     Inl (MS2RescoreGUIError maxquant_msg)"
  by (simp add: eval_defs)

text \<open>
  C9, amended. If the input lacks one of the keys modification_mapping,
  fixed_modifications, ms2pip_model and ms2pip_frag_error and every step before the pop of
  that key succeeds (no step precedes the pop of modification_mapping), \<open>parse_settings\<close>
  raises a raw KeyError for that key; if it lacks ms2pip_modifications and every step
  before succeeds, it raises MS2RescoreGUIError with the MS2PIP message, that pop being
  inside the guarded block; and if only ms2pip_modifications is absent, it raises
  MS2RescoreGUIError in every case.
\<close>

theorem C9_missing_key:
  "(k \<in> set relocated \<and> map_of (h a) k = None \<and> reaches_pop k h a \<longrightarrow>
      fst (parse_settings le a h) =
        Inl (if k = ''ms2pip_modifications'' then MS2RescoreGUIError ms2pip_msg
             else KeyError k)) \<and>
   (map_of (h a) ''ms2pip_modifications'' = None \<and>
    present h a ''modification_mapping'' \<and> present h a ''fixed_modifications'' \<and>
    present h a ''ms2pip_model'' \<and> present h a ''ms2pip_frag_error'' \<longrightarrow>
      (\<exists>msg. fst (parse_settings le a h) = Inl (MS2RescoreGUIError msg)))"
proof (intro conjI impI)
  assume "k \<in> set relocated \<and> map_of (h a) k = None \<and> reaches_pop k h a"
  then show "fst (parse_settings le a h) =
        Inl (if k = ''ms2pip_modifications'' then MS2RescoreGUIError ms2pip_msg
             else KeyError k)"
    by (auto simp add: relocated_def key_missing_mapping key_missing_fixed key_missing_model
          key_missing_frag_error key_missing_modifications)
next
  assume only: "map_of (h a) ''ms2pip_modifications'' = None \<and>
    present h a ''modification_mapping'' \<and> present h a ''fixed_modifications'' \<and>
    present h a ''ms2pip_model'' \<and> present h a ''ms2pip_frag_error''"
  show "\<exists>msg. fst (parse_settings le a h) = Inl (MS2RescoreGUIError msg)"
  proof (cases "reaches_pop ''ms2pip_modifications'' h a")
    case True
    with only show ?thesis
      by (simp add: key_missing_modifications)
  next
    case False
    with only have "fst (parse_settings le a h) = Inl (MS2RescoreGUIError maxquant_msg)"
      by (auto simp add: maxquant_error_iff reaches_pop_def)
    then show ?thesis by simp
  qed
qed

theorem C9_missing_key_witness:
  "fst (parse_settings literal_eval_excerpt 0
          (one_object (without [''ms2pip_model'']
             (form_values ''ox Oxidation'' ''C Carbamidomethyl'' ''[]'')))) =
     Inl (KeyError ''ms2pip_model'') \<and>
   fst (parse_settings literal_eval_excerpt 0
          (one_object (without [''ms2pip_modifications'']
             (form_values ''ox Oxidation'' ''C Carbamidomethyl'' ''[]'')))) =
     Inl (MS2RescoreGUIError ms2pip_msg)"
  using C9_missing_key
    [of "''ms2pip_model''"
        "one_object (without [''ms2pip_model'']
           (form_values ''ox Oxidation'' ''C Carbamidomethyl'' ''[]''))" 0 literal_eval_excerpt]
    C9_missing_key
    [of "''ms2pip_modifications''"
        "one_object (without [''ms2pip_modifications'']
           (form_values ''ox Oxidation'' ''C Carbamidomethyl'' ''[]''))" 0 literal_eval_excerpt]
  by (simp add: one_object_def form_values_def without_def relocated_def reaches_pop_def
        item_parses_def present_def parse_conf_item_def space_def newline_def dict_setitem_def)

text \<open>
  C10 as stated says that \<open>parse_settings\<close> succeeds on every input whose
  ms2pip_modifications text is a valid literal. With the literal "5" and a malformed
  fixed_modifications text it raises MS2RescoreGUIError.
\<close>

theorem C10_literal_counterexample:
  "literal_eval_excerpt ''5'' = Inr (PInt 5) \<and>
   fst (parse_settings literal_eval_excerpt 0
          (one_object (form_values ''ox Oxidation'' ''Carbamidomethyl'' ''5''))) =
     Inl (MS2RescoreGUIError maxquant_msg)"
  by (simp add: eval_defs)

text \<open>
  C10, amended. For every input on which the steps before the pop of ms2pip_modifications
  succeed and whose ms2pip_modifications text parses as any literal at all, a bare number
  or a string as well as a list of records, \<open>parse_settings\<close> succeeds and stores the
  value of the literal as it is under ms2pip.modifications: the shape of the value is not
  validated.
\<close>

theorem C10_no_shape_validation:
  assumes "reaches_pop ''ms2pip_modifications'' h a"
    and "map_of (h a) ''ms2pip_modifications'' = Some (PStr t)"
    and "le t = Inr v"
  shows "\<exists>r h'. parse_settings le a h = (Inr r, h') \<and>
                map_of (ms2pip r) ''modifications'' = Some v"
proof -
  from modifications_outcome [OF assms(1,2), of le] assms(3)
  obtain r where "fst (parse_settings le a h) = Inr r"
    and "map_of (ms2pip r) ''modifications'' = Some v"
    by (auto simp add: literal_eval_text)
  then show ?thesis
    by (metis prod.collapse)
qed

theorem C10_no_shape_validation_witness:
  "reaches_pop ''ms2pip_modifications''
     (one_object (form_values ''ox Oxidation'' ''C Carbamidomethyl'' ''5'')) 0 \<and>
   literal_eval_excerpt ''5'' = Inr (PInt 5) \<and>
   (\<exists>r h'. parse_settings literal_eval_excerpt 0
              (one_object (form_values ''ox Oxidation'' ''C Carbamidomethyl'' ''5'')) = (Inr r, h') \<and>
            map_of (ms2pip r) ''modifications'' = Some (PInt 5)) \<and>
   literal_eval_excerpt [CHR 0x27, CHR ''x'', CHR 0x27] = Inr (PStr ''x'') \<and>
   (\<exists>r h'. parse_settings literal_eval_excerpt 0
              (one_object (form_values ''ox Oxidation'' ''C Carbamidomethyl''
                             [CHR 0x27, CHR ''x'', CHR 0x27])) = (Inr r, h') \<and>
            map_of (ms2pip r) ''modifications'' = Some (PStr ''x''))"
  using C10_no_shape_validation
    [of "one_object (form_values ''ox Oxidation'' ''C Carbamidomethyl'' ''5'')" 0 "''5''"
        literal_eval_excerpt "PInt 5"]
    C10_no_shape_validation
    [of "one_object (form_values ''ox Oxidation'' ''C Carbamidomethyl''
                       [CHR 0x27, CHR ''x'', CHR 0x27])" 0 "[CHR 0x27, CHR ''x'', CHR 0x27]"
        literal_eval_excerpt "PStr ''x''"]
  by (simp add: one_object_def form_values_def literal_eval_excerpt_def reaches_pop_def
        item_parses_def present_def parse_conf_item_def space_def newline_def dict_setitem_def)

end
